theory Spec2Isabelle
  imports Complex_Main "HOL-Library.Sublist"
begin

section \<open>Python string operations used by the downloader\<close>

text \<open>
  Strings are lists of characters, and a character is a code point below U+0100 (ASCII
  and the Latin-1 supplement). The operations below are the ones the source calls on
  \<^verbatim>\<open>str\<close> values: \<^verbatim>\<open>lower()\<close>, \<^verbatim>\<open>in\<close>, \<^verbatim>\<open>endswith\<close>,
  \<^verbatim>\<open>replace\<close> and \<^verbatim>\<open>strip()\<close>. Case mapping and the character classes are
  Python's on these code points. \<^verbatim>\<open>lower()\<close> maps the capital letters A to Z and
  U+00C0 to U+00DE (but not the multiplication sign U+00D7) to the letter 32 code points
  higher, and leaves every other character as it is.
\<close>

definition code_point :: "char \<Rightarrow> nat" where
  "code_point c = of_char c"

definition is_upper_char :: "char \<Rightarrow> bool" where
  "is_upper_char c \<longleftrightarrow>
     (let n = code_point c
      in (0x41 \<le> n \<and> n \<le> 0x5A) \<or> (0xC0 \<le> n \<and> n \<le> 0xDE \<and> n \<noteq> 0xD7))"

definition lower_char :: "char \<Rightarrow> char" where
  "lower_char c = (if is_upper_char c then char_of (code_point c + 0x20) else c)"

definition lower :: "string \<Rightarrow> string" where
  "lower s = map lower_char s"

text \<open>\<^verbatim>\<open>pattern in s\<close>: the pattern occurs as a contiguous piece of \<open>s\<close>.\<close>

fun contains :: "string \<Rightarrow> string \<Rightarrow> bool" where
  "contains p [] = (p = [])"
| "contains p (c # cs) = (prefix p (c # cs) \<or> contains p cs)"

text \<open>\<^verbatim>\<open>s.replace(old, new)\<close> for a non-empty \<open>old\<close>: every occurrence, left to right,
  without overlap.\<close>

function str_replace :: "string \<Rightarrow> string \<Rightarrow> string \<Rightarrow> string" where
  "str_replace old new [] = []"
| "str_replace old new (c # cs) =
     (if old \<noteq> [] \<and> prefix old (c # cs)
      then new @ str_replace old new (drop (length old) (c # cs))
      else c # str_replace old new cs)"
  by pat_completeness auto
termination
  by (relation "measure (\<lambda>(old, new, s). length s)") (auto simp: Suc_diff_le)

text \<open>\<^verbatim>\<open>s.endswith(ext)\<close> is \<^const>\<open>suffix\<close>. The classes of the regular expressions
  for \<^verbatim>\<open>str\<close> patterns: \<^verbatim>\<open>\w\<close> is the underscore and every character that
  \<^verbatim>\<open>str.isalnum\<close> accepts (letters, digits, and the superscript digits and fractions of
  Latin-1), \<^verbatim>\<open>\s\<close> is the whitespace of \<^verbatim>\<open>str.isspace\<close> (with the separators
  U+001C to U+001F, the next-line control U+0085 and the no-break space U+00A0), which
  \<^verbatim>\<open>strip()\<close> removes as well.\<close>

definition is_word_char :: "char \<Rightarrow> bool" where
  "is_word_char c \<longleftrightarrow>
     (let n = code_point c
      in (0x30 \<le> n \<and> n \<le> 0x39) \<or> (0x41 \<le> n \<and> n \<le> 0x5A) \<or> n = 0x5F
       \<or> (0x61 \<le> n \<and> n \<le> 0x7A)
       \<or> n \<in> {0xAA, 0xB2, 0xB3, 0xB5, 0xB9, 0xBA, 0xBC, 0xBD, 0xBE}
       \<or> (0xC0 \<le> n \<and> n \<noteq> 0xD7 \<and> n \<noteq> 0xF7))"

definition is_space_char :: "char \<Rightarrow> bool" where
  "is_space_char c \<longleftrightarrow>
     (let n = code_point c
      in (0x09 \<le> n \<and> n \<le> 0x0D) \<or> (0x1C \<le> n \<and> n \<le> 0x20) \<or> n = 0x85 \<or> n = 0xA0)"

definition strip :: "string \<Rightarrow> string" where
  "strip s = rev (dropWhile is_space_char (rev (dropWhile is_space_char s)))"

text \<open>\<^verbatim>\<open>str(n)\<close> for a natural number: its decimal digits.\<close>

definition digit_char :: "nat \<Rightarrow> char" where
  "digit_char d = ''0123456789'' ! d"

function str_nat :: "nat \<Rightarrow> string" where
  "str_nat n = (if n < 10 then [digit_char n] else str_nat (n div 10) @ [digit_char (n mod 10)])"
  by pat_completeness auto
termination
  by (relation "measure (\<lambda>n. n)") auto

section \<open>URL parsing\<close>

text \<open>
  The source reads two components of \<^verbatim>\<open>urllib.parse.urlparse(url)\<close>: \<^verbatim>\<open>netloc\<close>
  and \<^verbatim>\<open>path\<close>. The parser belongs to the standard library, so the functions of the
  downloader take it as the parameter \<open>urlparse\<close>; it returns the two components or
  raises (\<open>Inl\<close> carries the message of the \<^verbatim>\<open>ValueError\<close>).
\<close>

record ParseResult =
  netloc :: string
  path :: string

type_synonym url_parser = "string \<Rightarrow> string + ParseResult"

text \<open>
  The library's parser, for the examples. \<^verbatim>\<open>urlsplit\<close> strips leading control
  characters and spaces, deletes tabs and line breaks, takes the text before the first
  colon as the scheme when it starts with an ASCII letter and consists of scheme
  characters, takes the network location after \<^verbatim>\<open>//\<close> up to the first of
  \<^verbatim>\<open>/ ? #\<close>, and ends the path before the first \<^verbatim>\<open>#\<close> or \<^verbatim>\<open>?\<close>;
  \<^verbatim>\<open>urlparse\<close> then cuts the parameters (\<^verbatim>\<open>;\<close>) from the last segment of the path
  for the schemes that have them. A bracket without its partner in the network location
  raises. The validation of a host in brackets is the work of the \<^verbatim>\<open>ipaddress\<close> module
  and enters as the parameter \<open>check_bracketed_host\<close>, which gives the message of the error
  it raises, if any. (The check of the network location under NFKC normalisation raises
  for no character below U+0100.)
\<close>

definition is_c0_control_or_space :: "char \<Rightarrow> bool" where
  "is_c0_control_or_space c \<longleftrightarrow> code_point c \<le> 0x20"

definition unsafe_url_bytes :: "char set" where
  "unsafe_url_bytes = {CHR 0x09, CHR 0x0D, CHR 0x0A}"

definition is_alpha_char :: "char \<Rightarrow> bool" where
  "is_alpha_char c \<longleftrightarrow>
     (let n = code_point c in (0x41 \<le> n \<and> n \<le> 0x5A) \<or> (0x61 \<le> n \<and> n \<le> 0x7A))"

definition is_scheme_char :: "char \<Rightarrow> bool" where
  "is_scheme_char c \<longleftrightarrow>
     is_alpha_char c \<or> (0x30 \<le> code_point c \<and> code_point c \<le> 0x39)
     \<or> c \<in> {CHR ''+'', CHR ''-'', CHR ''.''}"

definition uses_params :: "string set" where
  "uses_params = {'''', ''ftp'', ''hdl'', ''prospero'', ''http'', ''imap'', ''https'', ''shttp'',
     ''rtsp'', ''rtsps'', ''rtspu'', ''sip'', ''sips'', ''mms'', ''sftp'', ''tel''}"

text \<open>The scheme, lower-cased, and the text after its colon; the empty scheme and the
  whole text when there is none.\<close>

definition split_scheme :: "string \<Rightarrow> string \<times> string" where
  "split_scheme url =
     (let scheme = takeWhile (\<lambda>c. c \<noteq> CHR '':'') url in
      if length scheme < length url \<and> scheme \<noteq> [] \<and> is_alpha_char (hd scheme)
         \<and> list_all is_scheme_char scheme
      then (lower scheme, drop (length scheme + 1) url)
      else ('''', url))"

text \<open>\<^verbatim>\<open>_splitparams\<close>: the path without the parameters of its last segment.\<close>

definition splitparams :: "string \<Rightarrow> string" where
  "splitparams p =
     (let last_segment = rev (takeWhile (\<lambda>c. c \<noteq> CHR ''/'') (rev p))
      in take (length p - length last_segment) p
         @ takeWhile (\<lambda>c. c \<noteq> CHR '';'') last_segment)"

definition urlparse_with :: "(string \<Rightarrow> string option) \<Rightarrow> url_parser" where
  "urlparse_with check_bracketed_host url =
     (let cleaned = filter (\<lambda>c. c \<notin> unsafe_url_bytes)
                      (dropWhile is_c0_control_or_space url);
          scheme = fst (split_scheme cleaned);
          rest = snd (split_scheme cleaned);
          delim = (\<lambda>c. c \<in> {CHR ''/'', CHR ''?'', CHR ''#''});
          loc = (if take 2 rest = ''//'' then takeWhile (\<lambda>c. \<not> delim c) (drop 2 rest) else []);
          rest' = (if take 2 rest = ''//'' then dropWhile (\<lambda>c. \<not> delim c) (drop 2 rest) else rest);
          bracketed_host =
            takeWhile (\<lambda>c. c \<noteq> CHR '']'') (drop 1 (dropWhile (\<lambda>c. c \<noteq> CHR ''['') loc));
          p = takeWhile (\<lambda>c. c \<noteq> CHR ''?'' \<and> c \<noteq> CHR ''#'') rest'
      in if (CHR ''['' \<in> set loc) \<noteq> (CHR '']'' \<in> set loc) then Inl ''Invalid IPv6 URL''
         else case (if CHR ''['' \<in> set loc then check_bracketed_host bracketed_host else None) of
                Some e \<Rightarrow> Inl e
              | None \<Rightarrow>
                  Inr \<lparr>netloc = loc,
                       path = (if scheme \<in> uses_params \<and> CHR '';'' \<in> set p then splitparams p
                               else p)\<rparr>)"

text \<open>The examples have no host in brackets: their parser is the one whose check
  accepts.\<close>

definition urlparse_model :: url_parser where
  "urlparse_model = urlparse_with (\<lambda>host. None)"

section \<open>VideoAnalyzer\<close>

text \<open>
  The analyses are Python dicts with string keys whose values are strings or booleans;
  \<^verbatim>\<open>d.get(key, default)\<close> is \<open>dict_get\<close>.
\<close>

datatype pyval = Str string | Bool bool

type_synonym analysis = "string \<rightharpoonup> pyval"

text \<open>Truth value of a dict value, as \<^verbatim>\<open>if\<close> takes it: \<^verbatim>\<open>False\<close> and the empty string
  are false.\<close>

definition pyval_truthy :: "pyval \<Rightarrow> bool" where
  "pyval_truthy v = (case v of Bool b \<Rightarrow> b | Str s \<Rightarrow> s \<noteq> [])"

definition dict_get :: "('k \<rightharpoonup> 'v) \<Rightarrow> 'k \<Rightarrow> 'v \<Rightarrow> 'v" where
  "dict_get d k dflt = (case d k of Some v \<Rightarrow> v | None \<Rightarrow> dflt)"

definition video_extensions :: "string set" where
  "video_extensions = {''.mp4'', ''.mkv'', ''.avi'', ''.mov'', ''.wmv'', ''.flv'', ''.webm'', ''.m4v''}"

definition streaming_domains :: "string set" where
  "streaming_domains = {''youtube.com'', ''youtu.be'', ''vimeo.com'', ''dailymotion.com'',
     ''twitch.tv'', ''facebook.com'', ''instagram.com''}"

text \<open>The three helpers parse the URL again, so each of them can raise what the parser raises.\<close>

definition is_direct_video_url :: "url_parser \<Rightarrow> string \<Rightarrow> string + bool" where
  "is_direct_video_url urlparse url =
     (case urlparse url of
        Inl e \<Rightarrow> Inl e
      | Inr parsed \<Rightarrow> Inr (\<exists>ext \<in> video_extensions. suffix ext (lower (path parsed))))"

definition estimate_complexity :: "url_parser \<Rightarrow> string \<Rightarrow> string \<Rightarrow> string + string" where
  "estimate_complexity urlparse url domain =
     (case is_direct_video_url urlparse url of
        Inl e \<Rightarrow> Inl e
      | Inr direct \<Rightarrow>
          Inr (if direct then ''low''
               else if domain \<in> streaming_domains then ''medium''
               else ''high''))"

definition suggest_extraction_method :: "url_parser \<Rightarrow> string \<Rightarrow> string \<Rightarrow> string + string" where
  "suggest_extraction_method urlparse url domain =
     (case is_direct_video_url urlparse url of
        Inl e \<Rightarrow> Inl e
      | Inr direct \<Rightarrow>
          Inr (if direct then ''direct_download''
               else if domain \<in> streaming_domains then ''yt_dlp''
               else ''browser_automation''))"

text \<open>The body of the \<^verbatim>\<open>try\<close> block of \<^verbatim>\<open>analyze_url\<close>: the dict, or the exception
  that left the block.\<close>

definition analyze_url_try :: "url_parser \<Rightarrow> string \<Rightarrow> string + analysis" where
  "analyze_url_try urlparse url =
     (case urlparse url of Inl e \<Rightarrow> Inl e | Inr parsed \<Rightarrow>
      let domain = str_replace ''www.'' '''' (lower (netloc parsed)) in
      case is_direct_video_url urlparse url of Inl e \<Rightarrow> Inl e | Inr direct \<Rightarrow>
      case is_direct_video_url urlparse url of Inl e \<Rightarrow> Inl e | Inr direct' \<Rightarrow>
      case estimate_complexity urlparse url domain of Inl e \<Rightarrow> Inl e | Inr complexity \<Rightarrow>
      case suggest_extraction_method urlparse url domain of Inl e \<Rightarrow> Inl e | Inr method \<Rightarrow>
      Inr (map_of
        [(''url'', Str url),
         (''domain'', Str domain),
         (''path'', Str (path parsed)),
         (''is_direct_video'', Bool direct),
         (''is_streaming_platform'', Bool (domain \<in> streaming_domains)),
         (''requires_extraction'', Bool (\<not> direct')),
         (''estimated_complexity'', Str complexity),
         (''suggested_method'', Str method)]))"

definition analyze_url :: "url_parser \<Rightarrow> string \<Rightarrow> analysis" where
  "analyze_url urlparse url =
     (case analyze_url_try urlparse url of
        Inr analysis \<Rightarrow> analysis
      | Inl e \<Rightarrow> map_of [(''url'', Str url), (''error'', Str e)])"

definition batch_analyze :: "url_parser \<Rightarrow> string list \<Rightarrow> analysis list" where
  "batch_analyze urlparse urls = map (analyze_url urlparse) urls"

text \<open>
  \<^verbatim>\<open>_estimate_success_probability\<close>. Python's floats are idealised as real numbers:
  the weights are the decimal fractions written in the source and the sum and the
  division are exact.
\<close>

definition success_weights :: "pyval \<rightharpoonup> real" where
  "success_weights =
     map_of [(Str ''direct_download'', 95 / 100), (Str ''yt_dlp'', 85 / 100),
             (Str ''browser_automation'', 60 / 100)]"

fun total_weight_loop :: "real \<Rightarrow> analysis list \<Rightarrow> real" where
  "total_weight_loop total_weight [] = total_weight"
| "total_weight_loop total_weight (analysis # rest) =
     (let method = dict_get analysis ''suggested_method'' (Str ''browser_automation'')
      in total_weight_loop (total_weight + dict_get success_weights method (50 / 100)) rest)"

definition estimate_success_probability :: "analysis list \<Rightarrow> real" where
  "estimate_success_probability analyses =
     (if analyses = [] then 0
      else total_weight_loop 0 analyses / real (length analyses))"

text \<open>
  \<^verbatim>\<open>generate_analysis_report\<close>: the counters and the two distributions, which count an
  analysis without the key under \<^verbatim>\<open>'unknown'\<close>.
\<close>

fun count_distribution :: "string \<Rightarrow> (pyval \<rightharpoonup> nat) \<Rightarrow> analysis list \<Rightarrow> (pyval \<rightharpoonup> nat)" where
  "count_distribution key distribution [] = distribution"
| "count_distribution key distribution (analysis # rest) =
     (let v = dict_get analysis key (Str ''unknown'')
      in count_distribution key (distribution(v \<mapsto> dict_get distribution v 0 + 1)) rest)"

record AnalysisReport =
  total_urls :: nat
  direct_videos :: nat
  streaming_platforms :: nat
  complexity_distribution :: "pyval \<rightharpoonup> nat"
  method_distribution :: "pyval \<rightharpoonup> nat"
  success_probability :: real

definition generate_analysis_report :: "analysis list \<Rightarrow> AnalysisReport" where
  "generate_analysis_report analyses =
     \<lparr>total_urls = length analyses,
      direct_videos =
        length (filter (\<lambda>a. pyval_truthy (dict_get a ''is_direct_video'' (Bool False))) analyses),
      streaming_platforms =
        length (filter (\<lambda>a. pyval_truthy (dict_get a ''is_streaming_platform'' (Bool False))) analyses),
      complexity_distribution = count_distribution ''estimated_complexity'' Map.empty analyses,
      method_distribution = count_distribution ''suggested_method'' Map.empty analyses,
      success_probability = estimate_success_probability analyses\<rparr>"

subsection \<open>The weights as the specification words them\<close>

text \<open>
  The weights of the specification, by strategy, and the strategy under which the report
  counts an analysis (\<^verbatim>\<open>analysis.get('suggested_method', 'unknown')\<close> in
  \<^verbatim>\<open>generate_analysis_report\<close>).
\<close>

definition strategy_weight :: "pyval \<Rightarrow> real" where
  "strategy_weight method =
     (if method = Str ''direct_download'' then 95 / 100
      else if method = Str ''yt_dlp'' then 85 / 100
      else if method = Str ''browser_automation'' then 60 / 100
      else 50 / 100)"

definition reported_method :: "analysis \<Rightarrow> pyval" where
  "reported_method a = dict_get a ''suggested_method'' (Str ''unknown'')"

definition mean_weight_worded :: "analysis list \<Rightarrow> real" where
  "mean_weight_worded analyses =
     (\<Sum>a \<leftarrow> analyses. strategy_weight (reported_method a)) / real (length analyses)"

section \<open>ErrorRecovery\<close>

text \<open>
  \<^verbatim>\<open>self.error_patterns\<close> is a dict literal; iteration over \<^verbatim>\<open>items()\<close> follows the
  order of insertion, so the table is an association list in the order it is written.
\<close>

definition error_patterns :: "(string \<times> string list) list" where
  "error_patterns =
     [(''network_timeout'', [''timeout'', ''connection'', ''network'']),
      (''video_not_found'', [''not found'', ''404'', ''does not exist'']),
      (''access_denied'', [''403'', ''forbidden'', ''access denied'']),
      (''rate_limited'', [''rate limit'', ''429'', ''too many requests'']),
      (''login_required'', [''login'', ''authentication'', ''unauthorized''])]"

text \<open>The \<^verbatim>\<open>for category, patterns in ...\<close> loop with its early return, and the
  \<^verbatim>\<open>return 'unknown'\<close> after it.\<close>

fun categorize_loop :: "(string \<times> string list) list \<Rightarrow> string \<Rightarrow> string" where
  "categorize_loop [] error_lower = ''unknown''"
| "categorize_loop ((category, patterns) # rest) error_lower =
     (if list_ex (\<lambda>pattern. contains pattern error_lower) patterns then category
      else categorize_loop rest error_lower)"

definition categorize_error :: "string \<Rightarrow> string" where
  "categorize_error error_message =
     (let error_lower = lower error_message in categorize_loop error_patterns error_lower)"

subsection \<open>Recovery actions\<close>

record RecoveryAction =
  action :: string
  delay :: "int option"
  change_ip :: bool

text \<open>
  Modelled from the spec: the body of \<^verbatim>\<open>ErrorRecovery.suggest_recovery_action\<close>. The
  source file ends inside its first table entry, after
  \<^verbatim>\<open>'action': 'retry_with_delay', 'delay': min(30 * attempt, 3\<close>; the remaining rows
  and the abort rule are those of the table of section 4.6 of the specification, with
  the category and action names of the source and its tests (\<^verbatim>\<open>change_ip\<close> is the
  specification's escalateIp). The literal of the cap is cut off, so the cap is the
  parameter \<open>cap\<close>; \<open>max_retries\<close> is the field set by the constructor.
\<close>

definition suggest_recovery_action :: "int \<Rightarrow> int \<Rightarrow> string \<Rightarrow> int \<Rightarrow> RecoveryAction" where
  "suggest_recovery_action cap max_retries error_category attempt =
     (if attempt > max_retries
      then \<lparr>action = ''abort'', delay = None, change_ip = False\<rparr>
      else if error_category = ''network_timeout''
      then \<lparr>action = ''retry_with_delay'', delay = Some (min (30 * attempt) cap), change_ip = False\<rparr>
      else if error_category = ''rate_limited''
      then \<lparr>action = ''retry_with_delay'', delay = Some 120, change_ip = True\<rparr>
      else if error_category = ''access_denied''
      then \<lparr>action = ''retry_with_rotation'', delay = Some 60, change_ip = True\<rparr>
      else if error_category = ''login_required''
      then \<lparr>action = ''skip'', delay = None, change_ip = False\<rparr>
      else if error_category = ''video_not_found''
      then \<lparr>action = ''skip'', delay = None, change_ip = False\<rparr>
      else \<lparr>action = ''retry_with_delay'', delay = Some 60, change_ip = False\<rparr>)"

section \<open>VPNManager\<close>

text \<open>
  Times are microseconds, the resolution of \<^verbatim>\<open>datetime\<close>. The outside world enters
  as parameters: \<open>run\<close> gives the outcome of \<^verbatim>\<open>subprocess.run\<close> for a command line,
  \<open>now\<close> is the reading of the clock and \<open>seed\<close> the state of the random generator.
  Every function returns its result (or the exception that leaves it), the command lines
  it has run, and the manager after it.
\<close>

record GlobalConfig =
  output_directory :: string
  nordvpn_enabled :: bool
  ip_rotation_interval_min :: int
  ip_rotation_interval_max :: int
  headless :: bool
  timeout :: int
  concurrent_downloads :: int
  retry_attempts :: int

definition default_config :: GlobalConfig where
  "default_config =
     \<lparr>output_directory = ''./downloads'', nordvpn_enabled = True,
      ip_rotation_interval_min = 300, ip_rotation_interval_max = 1800,
      headless = False, timeout = 30, concurrent_downloads = 3, retry_attempts = 3\<rparr>"

record VPNManager =
  enabled :: bool
  current_server :: "string option"
  last_rotation :: int

datatype run_outcome = Completed int | TimeoutExpired | OtherException string

datatype exn = TimeoutExpiredError | Exception string

type_synonym 'a vpn_result = "(exn + 'a) \<times> string list \<times> VPNManager"

definition new_VPNManager :: "bool \<Rightarrow> int \<Rightarrow> VPNManager" where
  "new_VPNManager is_enabled now =
     \<lparr>enabled = is_enabled, current_server = None, last_rotation = now\<rparr>"

text \<open>\<^verbatim>\<open>WebVideoDownloader.__init__\<close> builds the manager from the configuration: only
  \<^verbatim>\<open>nordvpn_enabled\<close> is passed on.\<close>

definition vpn_manager_of :: "GlobalConfig \<Rightarrow> int \<Rightarrow> VPNManager" where
  "vpn_manager_of config now = new_VPNManager (nordvpn_enabled config) now"

definition countries :: "string list" where
  "countries = [''US'', ''DE'', ''GB'', ''NL'', ''SE'', ''CH'', ''FR'', ''CA'']"

definition random_choice :: "nat \<Rightarrow> 'a list \<Rightarrow> 'a" where
  "random_choice seed xs = xs ! (seed mod length xs)"

definition randint :: "nat \<Rightarrow> int \<Rightarrow> int \<Rightarrow> int" where
  "randint seed lo hi = lo + int seed mod (hi - lo + 1)"

text \<open>\<^verbatim>\<open>subprocess.run\<close>: the value returned is the exit code, the two other outcomes raise.\<close>

definition subprocess_run :: "(string \<Rightarrow> run_outcome) \<Rightarrow> string \<Rightarrow> exn + int" where
  "subprocess_run run cmd =
     (case run cmd of
        Completed returncode \<Rightarrow> Inr returncode
      | TimeoutExpired \<Rightarrow> Inl TimeoutExpiredError
      | OtherException e \<Rightarrow> Inl (Exception e))"

text \<open>The \<^verbatim>\<open>try\<close> block of \<^verbatim>\<open>connect_to_random_server\<close>. The pause after a successful
  connection is a sleep and changes nothing.\<close>

definition connect_try :: "(string \<Rightarrow> run_outcome) \<Rightarrow> nat \<Rightarrow> int \<Rightarrow> VPNManager \<Rightarrow> bool vpn_result" where
  "connect_try run seed now self =
     (let country = random_choice seed countries;
          cmd = ''nordvpn connect '' @ country
      in case subprocess_run run cmd of
           Inl e \<Rightarrow> (Inl e, [cmd], self)
         | Inr returncode \<Rightarrow>
             if returncode = 0
             then (Inr True, [cmd], self\<lparr>current_server := Some country, last_rotation := now\<rparr>)
             else (Inr False, [cmd], self))"

definition connect_to_random_server ::
    "(string \<Rightarrow> run_outcome) \<Rightarrow> nat \<Rightarrow> int \<Rightarrow> VPNManager \<Rightarrow> bool vpn_result" where
  "connect_to_random_server run seed now self =
     (if \<not> enabled self then (Inr True, [], self)
      else case connect_try run seed now self of
             (Inl TimeoutExpiredError, cmds, self') \<Rightarrow> (Inr False, cmds, self')
           | (Inl (Exception e), cmds, self') \<Rightarrow> (Inr False, cmds, self')
           | (Inr r, cmds, self') \<Rightarrow> (Inr r, cmds, self'))"

definition disconnect :: "(string \<Rightarrow> run_outcome) \<Rightarrow> VPNManager \<Rightarrow> bool vpn_result" where
  "disconnect run self =
     (if \<not> enabled self then (Inr True, [], self)
      else case subprocess_run run ''nordvpn disconnect'' of
             Inl e \<Rightarrow> (Inr False, [''nordvpn disconnect''], self)
           | Inr returncode \<Rightarrow> (Inr (returncode = 0), [''nordvpn disconnect''], self))"

text \<open>
  \<^verbatim>\<open>rotate_if_needed\<close>. \<^verbatim>\<open>timedelta(minutes=random.randint(300, 1800) / 60)\<close> is the
  sampled number taken as seconds. \<open>now\<close> is the clock when the elapsed time is taken,
  \<open>now'\<close> the clock when the new connection is recorded.
\<close>

definition rotate_if_needed ::
    "(string \<Rightarrow> run_outcome) \<Rightarrow> nat \<Rightarrow> nat \<Rightarrow> int \<Rightarrow> int \<Rightarrow> bool \<Rightarrow> VPNManager \<Rightarrow> bool vpn_result" where
  "rotate_if_needed run seed seed' now now' force self =
     (if \<not> enabled self then (Inr True, [], self)
      else
        let time_since_rotation = now - last_rotation self;
            rotation_interval = randint seed 300 1800 * 1000000
        in if force \<or> time_since_rotation > rotation_interval
           then (case disconnect run self of
                   (_, cmds, self') \<Rightarrow>
                     (case connect_to_random_server run seed' now' self' of
                        (r, cmds', self'') \<Rightarrow> (r, cmds @ cmds', self'')))
           else (Inr True, [], self))"

section \<open>VideoExtractor\<close>

text \<open>
  The two substitutions of \<^verbatim>\<open>_get_safe_filename\<close>: \<^verbatim>\<open>re.sub(r'[^\w\s-]', '', title)\<close>
  deletes every character that is neither a word character nor whitespace nor a hyphen,
  and \<^verbatim>\<open>re.sub(r'[-\s]+', '-', safe_title)\<close> replaces every maximal run of hyphens
  and whitespace by one hyphen.
\<close>

definition re_sub_unsafe :: "string \<Rightarrow> string" where
  "re_sub_unsafe s = filter (\<lambda>c. is_word_char c \<or> is_space_char c \<or> c = CHR ''-'') s"

definition is_separator :: "char \<Rightarrow> bool" where
  "is_separator c \<longleftrightarrow> c = CHR ''-'' \<or> is_space_char c"

function re_sub_separators :: "string \<Rightarrow> string" where
  "re_sub_separators [] = []"
| "re_sub_separators (c # cs) =
     (if is_separator c then CHR ''-'' # re_sub_separators (dropWhile is_separator cs)
      else c # re_sub_separators cs)"
  by pat_completeness auto
termination
  by (relation "measure length") (auto simp: less_Suc_eq_le length_dropWhile_le)

text \<open>
  \<^verbatim>\<open>_get_safe_filename\<close>. \<open>safe_title\<close> is the value of the variable of that name
  after its two assignments; \<open>now\<close> is \<^verbatim>\<open>int(time.time())\<close>. The function has no
  handler of its own: what the parser raises leaves it.
\<close>

definition safe_title :: "string \<Rightarrow> string" where
  "safe_title title = re_sub_separators (strip (re_sub_unsafe title))"

definition get_safe_filename :: "url_parser \<Rightarrow> nat \<Rightarrow> string \<Rightarrow> string \<Rightarrow> string + string" where
  "get_safe_filename urlparse now url title =
     (case urlparse url of
        Inl e \<Rightarrow> Inl e
      | Inr parsed \<Rightarrow>
          let domain = str_replace ''www.'' '''' (netloc parsed);
              filename =
                (if title \<noteq> [] then domain @ ''_'' @ safe_title title
                 else domain @ ''_'' @ str_nat now)
          in Inr (take 100 filename))"

record VideoInfo =
  video_url :: string
  title :: string
  duration :: "int option"
  format_id :: "string option"
  filesize :: "int option"
  quality :: "string option"
  direct_url :: "string option"

record DownloadResult =
  url :: string
  success :: bool
  filepath :: "string option"
  error :: "string option"
  video_info :: "VideoInfo option"
  download_time :: "real option"

text \<open>
  What \<^verbatim>\<open>download_video\<close> reads from outside: the parser, the extraction engine
  (\<open>extract_info\<close> gives the normalised information, nothing, or raises;
  \<open>ydl_download\<close> takes the URL and the output template and gives the message of the
  exception it raises, if any), the directory after the download (\<open>glob\<close> gives the paths
  that \<^verbatim>\<open>self.output_dir.glob(pattern)\<close> yields, or raises), and the three readings
  of \<^verbatim>\<open>time.time()\<close>: at the start, in \<^verbatim>\<open>_get_safe_filename\<close>, and at the end.
\<close>

record Env =
  env_urlparse :: url_parser
  extract_info :: "string \<Rightarrow> string + VideoInfo option"
  ydl_download :: "string \<Rightarrow> string \<Rightarrow> string option"
  glob :: "string \<Rightarrow> string + string list"
  start_time :: real
  name_time :: real
  end_time :: real

definition extract_video_info :: "Env \<Rightarrow> string \<Rightarrow> VideoInfo option" where
  "extract_video_info env u =
     (case extract_info env u of
        Inl e \<Rightarrow> None
      | Inr info \<Rightarrow> info)"

text \<open>\<^verbatim>\<open>Path.suffix\<close>: the last dot of the final component and what follows it, unless
  the dot is the first or the last character of the component.\<close>

definition path_suffix :: "string \<Rightarrow> string" where
  "path_suffix p =
     (let name = rev (takeWhile (\<lambda>c. c \<noteq> CHR ''/'') (rev p));
          ext = rev (takeWhile (\<lambda>c. c \<noteq> CHR ''.'') (rev name))
      in if CHR ''.'' \<in> set name \<and> ext \<noteq> [] \<and> length ext + 1 < length name
         then CHR ''.'' # ext
         else [])"

definition video_suffixes :: "string list" where
  "video_suffixes = [''.mp4'', ''.mkv'', ''.webm'', ''.avi'']"

definition failed :: "string \<Rightarrow> string \<Rightarrow> DownloadResult" where
  "failed u msg =
     \<lparr>url = u, success = False, filepath = None, error = Some msg, video_info = None,
      download_time = None\<rparr>"

text \<open>The block that determines the file name: the custom name when it is given and not
  empty, the safe file name of the title otherwise.\<close>

definition download_filename :: "Env \<Rightarrow> string \<Rightarrow> string option \<Rightarrow> VideoInfo \<Rightarrow> string + string" where
  "download_filename env u custom_filename info =
     (case custom_filename of
        Some name \<Rightarrow>
          if name \<noteq> [] then Inr name
          else get_safe_filename (env_urlparse env) (nat \<lfloor>name_time env\<rfloor>) u (title info)
      | None \<Rightarrow> get_safe_filename (env_urlparse env) (nat \<lfloor>name_time env\<rfloor>) u (title info))"

text \<open>
  \<^verbatim>\<open>download_video\<close>. \<open>output_dir\<close> is \<^verbatim>\<open>self.output_dir\<close> as the \<^verbatim>\<open>Path\<close>
  prints it (\<^verbatim>\<open>Path("./downloads")\<close> is \<^verbatim>\<open>downloads\<close>); the file name is joined to it
  with a slash, and the paths that the search yields begin with it. The file name goes
  into the search pattern \<^verbatim>\<open>f"{filename}.*"\<close> as it is.
\<close>

definition download_video :: "Env \<Rightarrow> string \<Rightarrow> string \<Rightarrow> string option \<Rightarrow> DownloadResult" where
  "download_video env output_dir u custom_filename =
     (case extract_video_info env u of
        None \<Rightarrow> failed u ''Keine Video-Informationen gefunden''
      | Some info \<Rightarrow>
         (case download_filename env u custom_filename info of
            Inl e \<Rightarrow> failed u (''Download fehlgeschlagen: '' @ e)
          | Inr filename \<Rightarrow>
             (case ydl_download env u (output_dir @ ''/'' @ filename @ ''.%(ext)s'') of
                Some e \<Rightarrow> failed u (''Download fehlgeschlagen: '' @ e)
              | None \<Rightarrow>
                 (case glob env (filename @ ''.*'') of
                    Inl e \<Rightarrow> failed u (''Download fehlgeschlagen: '' @ e)
                  | Inr downloaded_files \<Rightarrow>
                      let video_files =
                            filter (\<lambda>f. path_suffix f \<in> set video_suffixes) downloaded_files
                      in if video_files \<noteq> []
                         then \<lparr>url = u, success = True, filepath = Some (hd video_files),
                               error = None, video_info = Some info,
                               download_time = Some (end_time env - start_time env)\<rparr>
                         else failed u ''Download-Datei nicht gefunden''))))"

text \<open>
  The file name that the specification expects of the file found: the final component of
  the path is the stem, a dot and an extension.
\<close>

definition file_name :: "string \<Rightarrow> string" where
  "file_name p = rev (takeWhile (\<lambda>c. c \<noteq> CHR ''/'') (rev p))"

definition has_stem :: "string \<Rightarrow> string \<Rightarrow> bool" where
  "has_stem stem p \<longleftrightarrow> prefix (stem @ ''.'') (file_name p)"

text \<open>
  An environment for the example: the directory \<^verbatim>\<open>downloads\<close> holds the single file
  \<^verbatim>\<open>clip1.mp4\<close> of an earlier download; the engine finds a video and, ignoring its
  errors, raises nothing and writes nothing. For the pattern \<^verbatim>\<open>clip[1].*\<close>,
  \<^verbatim>\<open>Path.glob\<close> reads \<^verbatim>\<open>[1]\<close> as a character class and yields that file.
\<close>

definition stale_file_env :: Env where
  "stale_file_env =
     \<lparr>env_urlparse = urlparse_model,
      extract_info = (\<lambda>u. Inr (Some \<lparr>video_url = u, title = ''Clip'', duration = None,
         format_id = None, filesize = None, quality = None, direct_url = None\<rparr>)),
      ydl_download = (\<lambda>u outtmpl. None),
      glob = (\<lambda>pattern. if pattern = ''clip[1].*'' then Inr [''downloads/clip1.mp4'']
                          else Inr []),
      start_time = 1700000000, name_time = 1700000001, end_time = 1700000002\<rparr>"

section \<open>WebVideoDownloader: the login step\<close>

text \<open>
  The page is driven through Playwright; what the login step does to it is recorded as
  the list of interactions. \<open>fails\<close> tells which navigation or form fill raises.
  \<^verbatim>\<open>human_click\<close> catches its own exceptions, and the delays are sleeps.
\<close>

record SiteConfig =
  login_username :: "string option"
  login_password :: "string option"
  login_url :: "string option"
  login_username_field :: string
  login_password_field :: string
  login_submit_button :: string
  wait_after_login :: int

datatype interaction =
    Goto string
  | Fill string string
  | HumanClick string
  | RandomDelay
  | Sleep int

text \<open>Truth value of an optional string: \<^verbatim>\<open>None\<close> and the empty string are false.\<close>

definition truthy :: "string option \<Rightarrow> bool" where
  "truthy v = (case v of None \<Rightarrow> False | Some s \<Rightarrow> s \<noteq> [])"

definition may_raise :: "interaction \<Rightarrow> bool" where
  "may_raise i = (case i of Goto _ \<Rightarrow> True | Fill _ _ \<Rightarrow> True | _ \<Rightarrow> False)"

fun perform :: "(interaction \<Rightarrow> bool) \<Rightarrow> interaction list \<Rightarrow> bool \<times> interaction list" where
  "perform fails [] = (True, [])"
| "perform fails (i # rest) =
     (if may_raise i \<and> fails i then (False, [i])
      else (case perform fails rest of (ok, performed) \<Rightarrow> (ok, i # performed)))"

text \<open>
  \<^verbatim>\<open>_handle_login\<close>. \<open>page_url\<close> is \<^verbatim>\<open>page.url\<close> on entry. After the interactions the
  log line formats \<^verbatim>\<open>urlparse(page.url).netloc\<close>, still inside the \<^verbatim>\<open>try\<close>: \<open>url_after\<close>
  is \<^verbatim>\<open>page.url\<close> at that moment, and what the parser raises there is caught like the
  rest.
\<close>

definition handle_login ::
    "url_parser \<Rightarrow> (interaction \<Rightarrow> bool) \<Rightarrow> string \<Rightarrow> string \<Rightarrow> SiteConfig
       \<Rightarrow> bool \<times> interaction list" where
  "handle_login urlparse fails page_url url_after site_config =
     (if \<not> (truthy (login_username site_config) \<and> truthy (login_password site_config))
      then (True, [])
      else
        let target = (if truthy (login_url site_config) then the (login_url site_config)
                      else page_url)
        in case perform fails
                  ((if page_url \<noteq> target then [Goto target, RandomDelay] else [])
                   @ [Fill (login_username_field site_config) (the (login_username site_config)),
                      RandomDelay,
                      Fill (login_password_field site_config) (the (login_password site_config)),
                      RandomDelay,
                      HumanClick (login_submit_button site_config),
                      Sleep (wait_after_login site_config)]) of
             (ok, performed) \<Rightarrow>
               if \<not> ok then (False, performed)
               else (case urlparse url_after of
                       Inl e \<Rightarrow> (False, performed)
                     | Inr parsed \<Rightarrow> (True, performed)))"

section \<open>Properties\<close>

subsection \<open>Strings\<close>

lemma char_of_code:
  "char_of (numeral k :: nat) =
     Char (odd (numeral k :: nat)) (odd (numeral k div 2 :: nat)) (odd (numeral k div 4 :: nat))
       (odd (numeral k div 8 :: nat)) (odd (numeral k div 16 :: nat))
       (odd (numeral k div 32 :: nat)) (odd (numeral k div 64 :: nat))
       (odd (numeral k div 128 :: nat))"
  by (simp add: char_of_def bit_iff_odd_drop_bit drop_bit_eq_div)

lemmas lower_eval = lower_def lower_char_def is_upper_char_def code_point_def char_of_code

lemma contains_iff: "contains p s \<longleftrightarrow> (\<exists>a b. s = a @ p @ b)"
proof (induction s)
  case Nil
  then show ?case by auto
next
  case (Cons c cs)
  show ?case
  proof
    assume "contains p (c # cs)"
    then consider "prefix p (c # cs)" | "contains p cs" by auto
    then show "\<exists>a b. c # cs = a @ p @ b"
    proof cases
      case 1
      then obtain b where "c # cs = p @ b" by (auto simp: prefix_def)
      then have "c # cs = [] @ p @ b" by simp
      then show ?thesis by blast
    next
      case 2
      with Cons.IH obtain a b where "cs = a @ p @ b" by blast
      then have "c # cs = (c # a) @ p @ b" by simp
      then show ?thesis by blast
    qed
  next
    assume "\<exists>a b. c # cs = a @ p @ b"
    then obtain a b where ab: "c # cs = a @ p @ b" by blast
    show "contains p (c # cs)"
    proof (cases a)
      case Nil
      with ab have "prefix p (c # cs)" by (simp add: prefix_def)
      then show ?thesis by simp
    next
      case (Cons x a')
      with ab have "cs = a' @ p @ b" by simp
      with Cons.IH have "contains p cs" by blast
      then show ?thesis by simp
    qed
  qed
qed

subsection \<open>URL classification\<close>

lemmas analyzer_defs =
  analyze_url_def analyze_url_try_def is_direct_video_url_def estimate_complexity_def
  suggest_extraction_method_def

lemmas url_eval =
  lower_eval urlparse_model_def urlparse_with_def split_scheme_def
  splitparams_def is_c0_control_or_space_def unsafe_url_bytes_def uses_params_def
  is_alpha_char_def is_scheme_char_def video_extensions_def streaming_domains_def
  suffix_to_prefix Let_def

text \<open>
  Claim C1 at the URL \<^verbatim>\<open>https://youwww.tube.com/watch\<close>. Its path ends in no video
  extension and its host \<^verbatim>\<open>youwww.tube.com\<close>, which has no \<^verbatim>\<open>www.\<close> prefix to strip,
  is not a streaming domain, so the rules of the claim give complexity \<open>high\<close> and browser
  automation. The analyzer deletes the \<^verbatim>\<open>www.\<close> inside the host, takes the domain to be
  \<^verbatim>\<open>youtube.com\<close> and answers with a streaming platform, complexity \<open>medium\<close> and
  \<open>yt_dlp\<close>.
\<close>

theorem analyze_url_inner_www:
  "urlparse_model ''https://youwww.tube.com/watch''
     = Inr \<lparr>netloc = ''youwww.tube.com'', path = ''/watch''\<rparr>
   \<and> \<not> prefix ''www.'' ''youwww.tube.com''
   \<and> ''youwww.tube.com'' \<notin> streaming_domains
   \<and> analyze_url urlparse_model ''https://youwww.tube.com/watch'' ''is_direct_video''
       = Some (Bool False)
   \<and> analyze_url urlparse_model ''https://youwww.tube.com/watch'' ''domain''
       = Some (Str ''youtube.com'')
   \<and> analyze_url urlparse_model ''https://youwww.tube.com/watch'' ''is_streaming_platform''
       = Some (Bool True)
   \<and> analyze_url urlparse_model ''https://youwww.tube.com/watch'' ''estimated_complexity''
       = Some (Str ''medium'')
   \<and> analyze_url urlparse_model ''https://youwww.tube.com/watch'' ''suggested_method''
       = Some (Str ''yt_dlp'')"
proof -
  have p: "urlparse_model ''https://youwww.tube.com/watch''
      = Inr \<lparr>netloc = ''youwww.tube.com'', path = ''/watch''\<rparr>"
    by (simp add: url_eval)
  have d: "str_replace ''www.'' '''' (lower ''youwww.tube.com'') = ''youtube.com''"
    by (simp add: lower_eval)
  have n: "\<not> (\<exists>ext \<in> video_extensions. suffix ext (lower ''/watch''))"
    by (simp add: lower_eval video_extensions_def suffix_to_prefix)
  have s: "''youtube.com'' \<in> streaming_domains" by (simp add: streaming_domains_def)
  have h: "''youwww.tube.com'' \<notin> streaming_domains" by (simp add: streaming_domains_def)
  have x: "\<not> prefix ''www.'' ''youwww.tube.com''" by simp
  from p d n s h x show ?thesis
    by (simp add: analyzer_defs Let_def)
qed

subsection \<open>Success probability of a batch\<close>

lemma success_weights_get: "dict_get success_weights method (1 / 2) = strategy_weight method"
  by (simp add: dict_get_def success_weights_def strategy_weight_def)

lemma total_weight_loop_sum:
  "total_weight_loop acc analyses =
     acc + (\<Sum>a \<leftarrow> analyses.
              strategy_weight (dict_get a ''suggested_method'' (Str ''browser_automation'')))"
  by (induction analyses arbitrary: acc) (simp_all add: success_weights_get Let_def)

text \<open>
  Claim C8, as worded, fails on an analysis that carries no strategy: the analysis of a
  URL the parser rejects has only the keys \<open>url\<close> and \<open>error\<close>. The report counts it
  under the strategy \<open>unknown\<close>, whose weight is 0.50, while the estimate weighs it as
  browser automation, 0.60.
\<close>

theorem success_probability_missing_method_counterexample:
  "method_distribution (generate_analysis_report (batch_analyze urlparse_model [''http://[::1/v'']))
     = [Str ''unknown'' \<mapsto> 1]
   \<and> success_probability (generate_analysis_report (batch_analyze urlparse_model [''http://[::1/v'']))
     = 60 / 100
   \<and> mean_weight_worded (batch_analyze urlparse_model [''http://[::1/v'']) = 50 / 100
   \<and> success_probability (generate_analysis_report (batch_analyze urlparse_model [''http://[::1/v'']))
     \<noteq> mean_weight_worded (batch_analyze urlparse_model [''http://[::1/v''])"
proof -
  have a: "batch_analyze urlparse_model [''http://[::1/v'']
      = [map_of [(''url'', Str ''http://[::1/v''), (''error'', Str ''Invalid IPv6 URL'')]]"
    by (simp add: batch_analyze_def analyzer_defs url_eval)
  show ?thesis
    unfolding a
    by (simp add: generate_analysis_report_def estimate_success_probability_def dict_get_def
        success_weights_def mean_weight_worded_def reported_method_def strategy_weight_def)
qed

text \<open>
  Claim C8, amended. For every non-empty list of analyses the estimate is the arithmetic
  mean of the per-strategy weights 0.95 (direct download), 0.85 (\<open>yt_dlp\<close>), 0.60
  (browser automation) and 0.50 (any other strategy value), where an analysis that
  carries no strategy is weighed as browser automation. Floats are idealised as reals.
\<close>

theorem estimate_success_probability_mean:
  "analyses \<noteq> [] \<Longrightarrow>
   estimate_success_probability analyses =
     (\<Sum>a \<leftarrow> analyses.
        strategy_weight (dict_get a ''suggested_method'' (Str ''browser_automation'')))
     / real (length analyses)
   \<and> success_probability (generate_analysis_report analyses)
       = estimate_success_probability analyses"
  by (simp add: estimate_success_probability_def total_weight_loop_sum generate_analysis_report_def)

theorem estimate_success_probability_mean_witness:
  "estimate_success_probability
     (batch_analyze urlparse_model [''https://example.com/video.mp4'', ''https://youtu.be/abc''])
   = 90 / 100"
proof -
  let ?as = "batch_analyze urlparse_model [''https://example.com/video.mp4'', ''https://youtu.be/abc'']"
  have ne: "?as \<noteq> []" by (simp add: batch_analyze_def)
  have m1: "dict_get (analyze_url urlparse_model ''https://example.com/video.mp4'')
      ''suggested_method'' (Str ''browser_automation'') = Str ''direct_download''"
    by (simp add: dict_get_def analyzer_defs url_eval)
  have m2: "dict_get (analyze_url urlparse_model ''https://youtu.be/abc'')
      ''suggested_method'' (Str ''browser_automation'') = Str ''yt_dlp''"
    by (simp add: dict_get_def analyzer_defs url_eval)
  from estimate_success_probability_mean [OF ne] show ?thesis
    by (simp add: batch_analyze_def m1 m2 strategy_weight_def)
qed

subsection \<open>Failure classification\<close>

lemma categorize_loop_range:
  "categorize_loop tbl e \<in> insert ''unknown'' (fst ` set tbl)"
  by (induction tbl e rule: categorize_loop.induct) auto

lemma categorize_loop_none:
  "\<forall>(c, ps) \<in> set tbl. \<forall>p \<in> set ps. \<not> contains p e \<Longrightarrow> categorize_loop tbl e = ''unknown''"
  by (induction tbl e rule: categorize_loop.induct) (auto simp: list_ex_iff)

lemma categorize_loop_first:
  "i < length tbl \<Longrightarrow> \<exists>p \<in> set (snd (tbl ! i)). contains p e \<Longrightarrow>
   \<forall>j < i. \<forall>p \<in> set (snd (tbl ! j)). \<not> contains p e \<Longrightarrow>
   categorize_loop tbl e = fst (tbl ! i)"
proof (induction tbl e arbitrary: i rule: categorize_loop.induct)
  case (1 e)
  then show ?case by simp
next
  case (2 category patterns rest e)
  show ?case
  proof (cases i)
    case 0
    with "2.prems" show ?thesis by (auto simp: list_ex_iff)
  next
    case (Suc k)
    from "2.prems"(3) Suc have no0: "\<not> list_ex (\<lambda>p. contains p e) patterns"
      by (fastforce simp: list_ex_iff)
    from "2.prems"(3) Suc have later: "\<forall>j < k. \<forall>p \<in> set (snd (rest ! j)). \<not> contains p e"
      by fastforce
    from "2.prems"(1,2) Suc have "k < length rest" "\<exists>p \<in> set (snd (rest ! k)). contains p e"
      by auto
    with "2.IH" [OF no0 _ _ later] have "categorize_loop rest e = fst (rest ! k)" by blast
    with no0 Suc show ?thesis by simp
  qed
qed

text \<open>
  Claim C2. The failure classifier is a total function of the message: its result is
  always one of the six category names; it is \<open>unknown\<close> when no pattern of the table
  occurs in the lower-cased message; when patterns of several rows occur, the first row
  of the table that has an occurring pattern gives the result, so a message in which
  both \<open>timeout\<close> and \<open>rate limit\<close> occur is a \<open>network_timeout\<close>.
\<close>

theorem categorize_error_total_first_match:
  "categorize_error msg \<in> {''network_timeout'', ''video_not_found'', ''access_denied'',
       ''rate_limited'', ''login_required'', ''unknown''}
   \<and> ((\<forall>(c, ps) \<in> set error_patterns. \<forall>p \<in> set ps. \<not> contains p (lower msg))
        \<longrightarrow> categorize_error msg = ''unknown'')
   \<and> (\<forall>i < length error_patterns.
         (\<exists>p \<in> set (snd (error_patterns ! i)). contains p (lower msg))
         \<and> (\<forall>j < i. \<forall>p \<in> set (snd (error_patterns ! j)). \<not> contains p (lower msg))
        \<longrightarrow> categorize_error msg = fst (error_patterns ! i))
   \<and> (contains ''timeout'' (lower msg) \<and> contains ''rate limit'' (lower msg)
        \<longrightarrow> categorize_error msg = ''network_timeout'')"
proof (intro conjI impI allI)
  have "categorize_error msg \<in> insert ''unknown'' (fst ` set error_patterns)"
    unfolding categorize_error_def Let_def by (rule categorize_loop_range)
  then show "categorize_error msg \<in> {''network_timeout'', ''video_not_found'',
      ''access_denied'', ''rate_limited'', ''login_required'', ''unknown''}"
    unfolding error_patterns_def by auto
next
  assume "\<forall>(c, ps) \<in> set error_patterns. \<forall>p \<in> set ps. \<not> contains p (lower msg)"
  then show "categorize_error msg = ''unknown''"
    unfolding categorize_error_def Let_def by (rule categorize_loop_none)
next
  fix i
  assume "i < length error_patterns"
    and "(\<exists>p \<in> set (snd (error_patterns ! i)). contains p (lower msg))
       \<and> (\<forall>j < i. \<forall>p \<in> set (snd (error_patterns ! j)). \<not> contains p (lower msg))"
  then show "categorize_error msg = fst (error_patterns ! i)"
    unfolding categorize_error_def Let_def by (intro categorize_loop_first) auto
next
  assume "contains ''timeout'' (lower msg) \<and> contains ''rate limit'' (lower msg)"
  then show "categorize_error msg = ''network_timeout''"
    by (simp add: categorize_error_def error_patterns_def)
qed

theorem categorize_error_total_first_match_witness:
  "categorize_error ''Timeout: rate limit reached'' = ''network_timeout''
   \<and> categorize_error ''Rate limit exceeded'' = ''rate_limited''
   \<and> categorize_error ''disk full'' = ''unknown''"
proof -
  let ?m1 = "''Timeout: rate limit reached''"
  let ?m2 = "''Rate limit exceeded''"
  let ?m3 = "''disk full''"
  have l1: "lower ?m1 = ''timeout: rate limit reached''"
    by (simp add: lower_eval)
  have l2: "lower ?m2 = ''rate limit exceeded''"
    by (simp add: lower_eval)
  have l3: "lower ?m3 = ''disk full''"
    by (simp add: lower_eval)
  have h1: "contains ''timeout'' (lower ?m1) \<and> contains ''rate limit'' (lower ?m1)"
    unfolding l1 by simp
  have h2: "(3::nat) < length error_patterns
      \<and> (\<exists>p \<in> set (snd (error_patterns ! 3)). contains p (lower ?m2))
      \<and> (\<forall>j < 3. \<forall>p \<in> set (snd (error_patterns ! j)). \<not> contains p (lower ?m2))"
    unfolding l2 by (simp add: error_patterns_def less_Suc_eq numeral_3_eq_3 all_conj_distrib)
  have h3: "\<forall>(c, ps) \<in> set error_patterns. \<forall>p \<in> set ps. \<not> contains p (lower ?m3)"
    unfolding l3 by (simp add: error_patterns_def)
  have e3: "fst (error_patterns ! 3) = ''rate_limited''"
    by (simp add: error_patterns_def)
  from categorize_error_total_first_match [of ?m1] h1
  have r1: "categorize_error ?m1 = ''network_timeout''" by blast
  from categorize_error_total_first_match [of ?m2] h2
  have "categorize_error ?m2 = fst (error_patterns ! 3)" by blast
  with e3 have r2: "categorize_error ?m2 = ''rate_limited''" by simp
  from categorize_error_total_first_match [of ?m3] h3
  have r3: "categorize_error ?m3 = ''unknown''" by blast
  from r1 r2 r3 show ?thesis by blast
qed


subsection \<open>Recovery actions\<close>

text \<open>
  Claim C3. For an attempt number within the retry ceiling the decision is the row of
  the table: \<open>network_timeout\<close> retries after 30 times the attempt number, capped (30 at
  attempt 1 for a cap of at least 30); \<open>rate_limited\<close> retries after 120 with a change of
  IP; \<open>access_denied\<close> retries with rotation after 60 with a change of IP;
  \<open>login_required\<close> and \<open>video_not_found\<close> are skipped; \<open>unknown\<close> retries after 60.
\<close>

theorem suggest_recovery_action_table:
  "attempt \<le> max_retries \<Longrightarrow>
     suggest_recovery_action cap max_retries ''network_timeout'' attempt
       = \<lparr>action = ''retry_with_delay'', delay = Some (min (30 * attempt) cap), change_ip = False\<rparr>
   \<and> (attempt = 1 \<and> 30 \<le> cap \<longrightarrow>
        delay (suggest_recovery_action cap max_retries ''network_timeout'' attempt) = Some 30)
   \<and> suggest_recovery_action cap max_retries ''rate_limited'' attempt
       = \<lparr>action = ''retry_with_delay'', delay = Some 120, change_ip = True\<rparr>
   \<and> suggest_recovery_action cap max_retries ''access_denied'' attempt
       = \<lparr>action = ''retry_with_rotation'', delay = Some 60, change_ip = True\<rparr>
   \<and> suggest_recovery_action cap max_retries ''login_required'' attempt
       = \<lparr>action = ''skip'', delay = None, change_ip = False\<rparr>
   \<and> suggest_recovery_action cap max_retries ''video_not_found'' attempt
       = \<lparr>action = ''skip'', delay = None, change_ip = False\<rparr>
   \<and> suggest_recovery_action cap max_retries ''unknown'' attempt
       = \<lparr>action = ''retry_with_delay'', delay = Some 60, change_ip = False\<rparr>"
  by (simp add: suggest_recovery_action_def)

theorem suggest_recovery_action_table_witness:
  "suggest_recovery_action 300 3 (categorize_error ''Connection timeout after 30 seconds'') 1
     = \<lparr>action = ''retry_with_delay'', delay = Some 30, change_ip = False\<rparr>
   \<and> suggest_recovery_action 300 3 (categorize_error ''429 Too Many Requests'') 1
     = \<lparr>action = ''retry_with_delay'', delay = Some 120, change_ip = True\<rparr>"
proof -
  have c1: "categorize_error ''Connection timeout after 30 seconds'' = ''network_timeout''"
    by (simp add: categorize_error_def error_patterns_def lower_eval)
  have c2: "categorize_error ''429 Too Many Requests'' = ''rate_limited''"
    by (simp add: categorize_error_def error_patterns_def lower_eval)
  have h: "(1::int) \<le> 3" by simp
  from suggest_recovery_action_table [OF h, of 300] show ?thesis
    unfolding c1 c2 by simp
qed

text \<open>
  Claim C4. For every category and every attempt number above the retry ceiling
  \<open>max_retries\<close> the decision is \<open>abort\<close>.
\<close>

theorem suggest_recovery_action_abort:
  "max_retries < n \<Longrightarrow>
   suggest_recovery_action cap max_retries category n
     = \<lparr>action = ''abort'', delay = None, change_ip = False\<rparr>"
  by (simp add: suggest_recovery_action_def)

theorem suggest_recovery_action_abort_witness:
  "action (suggest_recovery_action 300 3 ''rate_limited'' 4) = ''abort''"
proof -
  have h: "(3::int) < 4" by simp
  from suggest_recovery_action_abort [OF h, of 300 "''rate_limited''"] show ?thesis by simp
qed

subsection \<open>VPN connection and rotation\<close>

lemma randint_range: "lo \<le> hi \<Longrightarrow> lo \<le> randint seed lo hi \<and> randint seed lo hi \<le> hi"
proof -
  assume le: "lo \<le> hi"
  define k where "k = hi - lo + 1"
  from le have pos: "0 < k" by (simp add: k_def)
  from pos have "0 \<le> int seed mod k" by (rule pos_mod_sign)
  moreover from pos have "int seed mod k < k" by (rule pos_mod_bound)
  ultimately have "lo \<le> lo + int seed mod k \<and> lo + int seed mod k \<le> hi"
    by (simp add: k_def)
  then show ?thesis by (simp add: randint_def k_def)
qed

lemma random_choice_member: "xs \<noteq> [] \<Longrightarrow> random_choice seed xs \<in> set xs"
  by (simp add: random_choice_def)

text \<open>
  Claim C6. Connecting never raises: the result is always a boolean. A disabled manager
  runs nothing, returns success and is unchanged. With exit code zero the chosen country
  is recorded as \<open>current_server\<close> and \<open>last_rotation\<close> is set to the clock. With any other
  exit code, a timeout or any other exception the result is failure and the manager is
  unchanged.
\<close>

theorem connect_to_random_server_signal:
  "(\<exists>ok cmds self'. connect_to_random_server run seed now self = (Inr ok, cmds, self'))
   \<and> random_choice seed countries \<in> set countries
   \<and> (\<not> enabled self \<longrightarrow> connect_to_random_server run seed now self = (Inr True, [], self))
   \<and> (enabled self \<and> run (''nordvpn connect '' @ random_choice seed countries) = Completed 0 \<longrightarrow>
        connect_to_random_server run seed now self
          = (Inr True, [''nordvpn connect '' @ random_choice seed countries],
             self\<lparr>current_server := Some (random_choice seed countries), last_rotation := now\<rparr>))
   \<and> (enabled self \<and> run (''nordvpn connect '' @ random_choice seed countries) \<noteq> Completed 0 \<longrightarrow>
        connect_to_random_server run seed now self
          = (Inr False, [''nordvpn connect '' @ random_choice seed countries], self))"
proof -
  let ?cmd = "''nordvpn connect '' @ random_choice seed countries"
  have mem: "random_choice seed countries \<in> set countries"
    by (rule random_choice_member) (simp add: countries_def)
  show ?thesis
  proof (cases "enabled self")
    case False
    with mem show ?thesis by (auto simp: connect_to_random_server_def)
  next
    case True
    show ?thesis
    proof (cases "run ?cmd")
      case (Completed rc)
      with True mem show ?thesis
        by (auto simp: connect_to_random_server_def connect_try_def subprocess_run_def Let_def)
    next
      case TimeoutExpired
      with True mem show ?thesis
        by (auto simp: connect_to_random_server_def connect_try_def subprocess_run_def Let_def)
    next
      case (OtherException e)
      with True mem show ?thesis
        by (auto simp: connect_to_random_server_def connect_try_def subprocess_run_def Let_def)
    qed
  qed
qed

theorem connect_to_random_server_signal_witness:
  "connect_to_random_server (\<lambda>cmd. Completed 0) 3 2000000
       \<lparr>enabled = True, current_server = None, last_rotation = 0\<rparr>
     = (Inr True, [''nordvpn connect NL''],
        \<lparr>enabled = True, current_server = Some ''NL'', last_rotation = 2000000\<rparr>)
   \<and> connect_to_random_server (\<lambda>cmd. TimeoutExpired) 3 2000000
       \<lparr>enabled = True, current_server = None, last_rotation = 0\<rparr>
     = (Inr False, [''nordvpn connect NL''],
        \<lparr>enabled = True, current_server = None, last_rotation = 0\<rparr>)
   \<and> connect_to_random_server (\<lambda>cmd. Completed 1) 3 2000000
       \<lparr>enabled = False, current_server = None, last_rotation = 0\<rparr>
     = (Inr True, [], \<lparr>enabled = False, current_server = None, last_rotation = 0\<rparr>)"
proof -
  have c: "random_choice 3 countries = ''NL''"
    by (simp add: random_choice_def countries_def)
  from connect_to_random_server_signal
         [of "\<lambda>cmd. Completed 0" 3 2000000 "\<lparr>enabled = True, current_server = None, last_rotation = 0\<rparr>"]
  have r1: "connect_to_random_server (\<lambda>cmd. Completed 0) 3 2000000
       \<lparr>enabled = True, current_server = None, last_rotation = 0\<rparr>
     = (Inr True, [''nordvpn connect NL''],
        \<lparr>enabled = True, current_server = Some ''NL'', last_rotation = 2000000\<rparr>)"
    by (simp add: c)
  from connect_to_random_server_signal
         [of "\<lambda>cmd. TimeoutExpired" 3 2000000 "\<lparr>enabled = True, current_server = None, last_rotation = 0\<rparr>"]
  have r2: "connect_to_random_server (\<lambda>cmd. TimeoutExpired) 3 2000000
       \<lparr>enabled = True, current_server = None, last_rotation = 0\<rparr>
     = (Inr False, [''nordvpn connect NL''],
        \<lparr>enabled = True, current_server = None, last_rotation = 0\<rparr>)"
    by (simp add: c)
  from connect_to_random_server_signal
         [of "\<lambda>cmd. Completed 1" 3 2000000 "\<lparr>enabled = False, current_server = None, last_rotation = 0\<rparr>"]
  have r3: "connect_to_random_server (\<lambda>cmd. Completed 1) 3 2000000
       \<lparr>enabled = False, current_server = None, last_rotation = 0\<rparr>
     = (Inr True, [], \<lparr>enabled = False, current_server = None, last_rotation = 0\<rparr>)"
    by simp
  from r1 r2 r3 show ?thesis by blast
qed

text \<open>
  Claim C5 at a configuration that sets the rotation bounds to 10 and 20 seconds: one
  minute after the last rotation, without force, the enabled manager runs no command,
  for every state of the random generator. The sampled interval comes from the literals
  300 and 1800, not from the configuration, so a duration sampled from the configured
  bounds would have been exceeded and the rotation is missed.
\<close>

theorem rotate_if_needed_ignores_configured_bounds:
  "rotate_if_needed run seed seed' (t0 + 60 * 1000000) now' False
     (vpn_manager_of
        (default_config\<lparr>ip_rotation_interval_min := 10, ip_rotation_interval_max := 20\<rparr>) t0)
   = (Inr True, [],
      vpn_manager_of
        (default_config\<lparr>ip_rotation_interval_min := 10, ip_rotation_interval_max := 20\<rparr>) t0)"
proof -
  have "(300::int) \<le> 1800" by simp
  from randint_range [OF this, of seed] have "300 \<le> randint seed 300 1800" by simp
  then show ?thesis
    by (simp add: rotate_if_needed_def vpn_manager_of_def new_VPNManager_def default_config_def
        Let_def)
qed

subsection \<open>The login step\<close>

lemma perform_nonempty: "is \<noteq> [] \<Longrightarrow> snd (perform fails is) \<noteq> []"
  by (cases "is") (simp_all split: prod.splits)

text \<open>
  Claim C9. For a site configuration without a full credential pair the login step
  returns success at once and performs no interaction with the page.
\<close>

theorem handle_login_without_credentials:
  "\<not> (login_username sc \<noteq> None \<and> login_password sc \<noteq> None) \<Longrightarrow>
   handle_login urlparse fails page_url url_after sc = (True, [])"
proof -
  assume "\<not> (login_username sc \<noteq> None \<and> login_password sc \<noteq> None)"
  then have nc: "\<not> (truthy (login_username sc) \<and> truthy (login_password sc))"
    by (auto simp: truthy_def)
  show ?thesis
    unfolding handle_login_def by (simp only: if_P [OF nc])
qed

theorem handle_login_without_credentials_witness:
  "handle_login (\<lambda>u. Inl ''Invalid IPv6 URL'') (\<lambda>i. True) ''https://test-site.com/video''
     ''https://test-site.com/video''
     \<lparr>login_username = Some ''alice'', login_password = None, login_url = None,
      login_username_field = ''input[name=username]'', login_password_field = ''input[name=password]'',
      login_submit_button = ''button[type=submit]'', wait_after_login = 3\<rparr>
   = (True, [])"
proof -
  let ?sc = "\<lparr>login_username = Some ''alice'', login_password = None, login_url = None,
      login_username_field = ''input[name=username]'', login_password_field = ''input[name=password]'',
      login_submit_button = ''button[type=submit]'', wait_after_login = 3\<rparr>"
  have h: "\<not> (login_username ?sc \<noteq> None \<and> login_password ?sc \<noteq> None)" by simp
  from handle_login_without_credentials [OF h] show ?thesis .
qed

text \<open>With credentials the step does interact with the page, and a page address that the
  parser rejects in the log line turns the login into a failure.\<close>

lemma handle_login_with_credentials_interacts:
  assumes "truthy (login_username sc)" and "truthy (login_password sc)"
  shows "snd (handle_login urlparse fails page_url url_after sc) \<noteq> []"
proof -
  let ?target = "if truthy (login_url sc) then the (login_url sc) else page_url"
  let ?steps = "(if page_url \<noteq> ?target then [Goto ?target, RandomDelay] else [])
       @ [Fill (login_username_field sc) (the (login_username sc)), RandomDelay,
          Fill (login_password_field sc) (the (login_password sc)), RandomDelay,
          HumanClick (login_submit_button sc), Sleep (wait_after_login sc)]"
  obtain ok performed where p: "perform fails ?steps = (ok, performed)" by (cases "perform fails ?steps")
  have "?steps \<noteq> []" by simp
  from perform_nonempty [OF this, of fails] p have ne: "performed \<noteq> []" by simp
  from assms have c: "\<not> \<not> (truthy (login_username sc) \<and> truthy (login_password sc))" by simp
  have "snd (handle_login urlparse fails page_url url_after sc) = performed"
    unfolding handle_login_def Let_def if_not_P [OF c] p
    by (simp split: sum.split)
  with ne show ?thesis by simp
qed

lemma handle_login_address_rejected:
  assumes "truthy (login_username sc)" and "truthy (login_password sc)"
    and "urlparse url_after = Inl e"
  shows "fst (handle_login urlparse fails page_url url_after sc) = False"
proof -
  let ?target = "if truthy (login_url sc) then the (login_url sc) else page_url"
  let ?steps = "(if page_url \<noteq> ?target then [Goto ?target, RandomDelay] else [])
       @ [Fill (login_username_field sc) (the (login_username sc)), RandomDelay,
          Fill (login_password_field sc) (the (login_password sc)), RandomDelay,
          HumanClick (login_submit_button sc), Sleep (wait_after_login sc)]"
  obtain ok performed where p: "perform fails ?steps = (ok, performed)"
    by (cases "perform fails ?steps")
  from assms(1,2) have c: "\<not> \<not> (truthy (login_username sc) \<and> truthy (login_password sc))"
    by simp
  show ?thesis
    unfolding handle_login_def Let_def if_not_P [OF c] p
    by (simp add: assms(3))
qed

subsection \<open>Safe file names\<close>

lemmas filename_eval =
  get_safe_filename_def safe_title_def re_sub_unsafe_def strip_def is_word_char_def
  is_space_char_def is_separator_def code_point_def

text \<open>
  Claim C10 at the URL \<^verbatim>\<open>https://mywww.example.com/v\<close> with the title \<^verbatim>\<open>Clip\<close>. The
  host \<^verbatim>\<open>mywww.example.com\<close> has no \<^verbatim>\<open>www.\<close> prefix to remove, so the claim has the
  name begin with it. The builder deletes the \<^verbatim>\<open>www.\<close> inside the host and returns
  \<^verbatim>\<open>myexample.com_Clip\<close>, which neither begins with the host nor is a prefix of it.
\<close>

theorem get_safe_filename_inner_www:
  "urlparse_model ''https://mywww.example.com/v''
     = Inr \<lparr>netloc = ''mywww.example.com'', path = ''/v''\<rparr>
   \<and> \<not> prefix ''www.'' ''mywww.example.com''
   \<and> get_safe_filename urlparse_model 1700000000 ''https://mywww.example.com/v'' ''Clip''
       = Inr ''myexample.com_Clip''
   \<and> \<not> prefix ''mywww.example.com'' ''myexample.com_Clip''
   \<and> \<not> prefix ''myexample.com_Clip'' ''mywww.example.com''"
proof -
  have p: "urlparse_model ''https://mywww.example.com/v''
      = Inr \<lparr>netloc = ''mywww.example.com'', path = ''/v''\<rparr>"
    by (simp add: url_eval)
  have t: "safe_title ''Clip'' = ''Clip''"
    by (simp add: filename_eval)
  have d: "str_replace ''www.'' '''' ''mywww.example.com'' = ''myexample.com''"
    by simp
  have g: "get_safe_filename urlparse_model 1700000000 ''https://mywww.example.com/v'' ''Clip''
      = Inr ''myexample.com_Clip''"
    by (simp add: get_safe_filename_def p t d Let_def)
  from p g show ?thesis by simp
qed

subsection \<open>The check after a download\<close>

text \<open>
  Claim C7 at the custom file name \<^verbatim>\<open>clip[1]\<close>, in a directory that holds only
  \<^verbatim>\<open>clip1.mp4\<close>, with an engine that writes nothing. No file named \<^verbatim>\<open>clip[1].\<close> and
  an extension exists after the download, so the claim has the download fail. The stem
  goes into the search pattern as it is, the search yields \<^verbatim>\<open>clip1.mp4\<close>, and the
  download is reported as a success with the path of that file.
\<close>

theorem download_video_unescaped_stem:
  "download_video stale_file_env ''downloads'' ''https://example.com/page'' (Some ''clip[1]'')
     = \<lparr>url = ''https://example.com/page'', success = True,
        filepath = Some ''downloads/clip1.mp4'', error = None,
        video_info = Some \<lparr>video_url = ''https://example.com/page'', title = ''Clip'',
          duration = None, format_id = None, filesize = None, quality = None,
          direct_url = None\<rparr>,
        download_time = Some 2\<rparr>
   \<and> \<not> has_stem ''clip[1]'' ''downloads/clip1.mp4''"
proof -
  have s: "path_suffix ''downloads/clip1.mp4'' = ''.mp4''"
    by (simp add: path_suffix_def)
  have v: "''.mp4'' \<in> set video_suffixes" by (simp add: video_suffixes_def)
  have n: "\<not> has_stem ''clip[1]'' ''downloads/clip1.mp4''"
    by (simp add: has_stem_def file_name_def)
  from s v n show ?thesis
    by (simp add: download_video_def stale_file_env_def extract_video_info_def
        download_filename_def Let_def)
qed

end
